theory Spec2Isabelle
  imports Main
begin

section \<open>Organization sign-up: the provisioning action of app/routes/org-signup.tsx\<close>

text \<open>
  The route's \<open>action\<close> reads the submitted form, checks that an organization name is
  present, and then awaits four calls to the identity provider, one after the other:
  \<open>createTenant\<close>, \<open>createAPIKey\<close>, \<open>createApplication\<close> and \<open>register\<close>.
  The provider is an external collaborator. It is modelled as a parameter: a record of
  four operations over a provider state of any type \<open>'p\<close>, each of which either rejects
  (the awaited promise throws) or resolves with a response. Every call that the code
  issues is appended to a log together with the client it was issued through, so that
  the order, the arguments and the client of each call can be stated.
\<close>

subsection \<open>Request payloads, as the object literals of the source\<close>

text \<open>
  Field names follow the source. Where two object literals use the same field name
  (\<open>name\<close>, \<open>description\<close>), the record field carries the owner as a prefix.
\<close>

record Role =
  role_name :: string
  role_description :: string
  isDefault :: bool

record Tenant =
  tenant_name :: string
  issuer :: string

record TenantRequest =
  sourceTenantId :: "string option"
  tenant :: Tenant

record Attributes =
  description :: string

record MetaData =
  attributes :: Attributes

record APIKey =
  metaData :: MetaData
  tenantId :: string

record APIKeyRequest =
  apiKey :: APIKey

record LoginConfiguration =
  generateRefreshTokens :: bool

record Application =
  app_name :: string
  roles :: "Role list"
  loginConfiguration :: LoginConfiguration

record ApplicationRequest =
  application :: Application
  role :: Role

record Registration =
  applicationId :: string

text \<open>
  \<open>user\<close> is \<open>Object.fromEntries(formData)\<close>: an object keyed by field name. The form
  posts text fields, so the values are strings.
\<close>

record RegistrationRequest =
  user :: "string \<rightharpoonup> string"
  registration :: Registration

subsection \<open>Responses, with the fields the code reads\<close>

text \<open>
  A provider call resolves with a \<open>ClientResponse\<close> envelope. Every level that the
  code guards with \<open>?.\<close> is an option: the envelope itself, its \<open>response\<close> body, the
  entity inside the body and the entity's id (or key).
\<close>

record 'a ClientResponse =
  statusCode :: int
  response :: "'a option"

record TenantEntity =
  tenant_id :: "string option"

record TenantResponse =
  response_tenant :: "TenantEntity option"

record APIKeyEntity =
  apiKey_key :: "string option"

record APIKeyResponse =
  response_apiKey :: "APIKeyEntity option"

record ApplicationEntity =
  application_id :: "string option"

record ApplicationResponse =
  response_application :: "ApplicationEntity option"

subsection \<open>Thrown values\<close>

text \<open>
  What a \<open>throw\<close> or a rejected promise carries: the provider client rejects with a
  \<open>ClientResponse\<close> whose \<open>response\<close> is the error body; the code itself throws
  \<open>new Error(message)\<close>; \<open>invariant(condition, message)\<close> of tiny-invariant throws
  when its condition is falsy (the text of that error is the library's, so the model
  keeps only the message that was passed in); the runtime's \<open>Headers\<close> and
  \<open>Response\<close> throw a \<open>TypeError\<close> or a \<open>RangeError\<close>.
\<close>

datatype thrown =
  ClientError "string ClientResponse"
  | Error string
  | InvariantFailed string
  | TypeError string
  | RangeError string

text \<open>
  The property reads \<open>error.response\<close> and \<open>error.statusCode\<close> of the catch block,
  on whatever was thrown: a value without the property reads as \<open>undefined\<close>.
\<close>

fun error_response :: "thrown \<Rightarrow> string option" where
  "error_response (ClientError r) = response r"
| "error_response (Error m) = None"
| "error_response (InvariantFailed m) = None"
| "error_response (TypeError m) = None"
| "error_response (RangeError m) = None"

fun error_statusCode :: "thrown \<Rightarrow> int option" where
  "error_statusCode (ClientError r) = Some (statusCode r)"
| "error_statusCode (Error m) = None"
| "error_statusCode (InvariantFailed m) = None"
| "error_statusCode (TypeError m) = None"
| "error_statusCode (RangeError m) = None"

subsection \<open>Clients, calls and the provider\<close>

text \<open>
  Modelled from the spec: \<open>~/services/get_fusion_auth_client\<close> is imported by the route
  but is not among the sources. The spec describes it as a named "default" client
  construction versus a per-tenant client construction, so \<open>getFusionAuthClient a\<close> is a
  handle that records its argument. \<open>FusionAuthClient key host\<close> is the source's
  \<open>new FusionAuthClient(lockedApiKey, FUSIONAUTH_BASE_URL)\<close>. A client is thus named
  by the expression that produced it: an object made by \<open>new\<close> inside
  \<open>createApplication\<close> is never the object a \<open>getFusionAuthClient\<close> call hands out.
\<close>

datatype client =
  getFusionAuthClient string
  | FusionAuthClient string "string option"

text \<open>
  One provider call: the client it is issued through, the first (id) argument, which the
  source always passes as the empty string, and the request.
\<close>

datatype call =
  CreateTenant client string TenantRequest
  | CreateAPIKey client string APIKeyRequest
  | CreateApplication client string ApplicationRequest
  | Register client string RegistrationRequest

text \<open>
  The provider: each operation takes the client, the id argument, the request and the
  provider's state, and gives the outcome of the awaited promise and the next state.
  \<open>Inl\<close> is a rejection. A resolved envelope may itself be absent (\<open>None\<close>), which the
  source guards against with \<open>createTenantResult?.\<close>. The value \<open>register\<close> resolves
  with is never read, so it is \<open>unit\<close>.
\<close>

record 'p provider =
  createTenant_op ::
    "client \<Rightarrow> string \<Rightarrow> TenantRequest \<Rightarrow> 'p \<Rightarrow> (thrown + TenantResponse ClientResponse option) \<times> 'p"
  createAPIKey_op ::
    "client \<Rightarrow> string \<Rightarrow> APIKeyRequest \<Rightarrow> 'p \<Rightarrow> (thrown + APIKeyResponse ClientResponse option) \<times> 'p"
  createApplication_op ::
    "client \<Rightarrow> string \<Rightarrow> ApplicationRequest \<Rightarrow> 'p \<Rightarrow> (thrown + ApplicationResponse ClientResponse option) \<times> 'p"
  register_op ::
    "client \<Rightarrow> string \<Rightarrow> RegistrationRequest \<Rightarrow> 'p \<Rightarrow> (thrown + unit) \<times> 'p"

text \<open>The world a request runs in: the provider's state and the log of calls issued.\<close>

record 'p world =
  provider_state :: 'p
  calls :: "call list"

text \<open>
  What the code takes from its surroundings: \<open>process.env.FUSIONAUTH_BASE_URL\<close>
  (possibly unset); the \<open>tenantId\<close> property of the client that
  \<open>getFusionAuthClient\<close> returns for a given argument; and the runtime under the
  framework's response builders. \<open>redirect_throws\<close> says what the runtime's
  \<open>Headers\<close> throws, if anything, for a \<open>Location\<close> value, and \<open>json_throws\<close>
  what its \<open>Response\<close> throws, if anything, for a status. Runtimes differ here (the
  standard classes validate, a lenient polyfill does not), so both are parameters; they
  are consulted only for values the standard classes refuse (see \<open>redirect\<close> and
  \<open>json\<close> below).
\<close>

record env =
  FUSIONAUTH_BASE_URL :: "string option"
  client_tenantId :: "string \<Rightarrow> string option"
  redirect_throws :: "string \<Rightarrow> thrown option"
  json_throws :: "int option \<Rightarrow> thrown option"

text \<open>Awaiting one provider call: log it, run the operation on the provider's state.\<close>

definition await_call ::
  "call \<Rightarrow> ('p \<Rightarrow> 'r \<times> 'p) \<Rightarrow> 'p world \<Rightarrow> 'r \<times> 'p world" where
  "await_call c op w =
     (case op (provider_state w) of
        (r, p') \<Rightarrow> (r, \<lparr>provider_state = p', calls = calls w @ [c]\<rparr>))"

subsection \<open>JavaScript truthiness of an optional string\<close>

text \<open>
  \<open>!v\<close> for a value that is a string, \<open>undefined\<close> or \<open>null\<close>: true when the value is
  absent or is the empty string.
\<close>

fun falsy :: "string option \<Rightarrow> bool" where
  "falsy None = True"
| "falsy (Some s) = (s = [])"

subsection \<open>The source's constants and functions\<close>

definition configuredRoles :: "Role list" where
  "configuredRoles =
     [\<lparr>role_name = ''admin'', role_description = ''Admin role inside the organization'',
       isDefault = False\<rparr>,
      \<lparr>role_name = ''member'', role_description = ''Member role'', isDefault = True\<rparr>]"

text \<open>\<open>createTenantResult?.response?.tenant?.id\<close>\<close>

definition createTenantResult_id :: "TenantResponse ClientResponse option \<Rightarrow> string option" where
  "createTenantResult_id createTenantResult =
     Option.bind (Option.bind (Option.bind createTenantResult response) response_tenant) tenant_id"

definition tenantConfig :: "env \<Rightarrow> string \<Rightarrow> TenantRequest" where
  "tenantConfig e organizationId =
     \<lparr>sourceTenantId = client_tenantId e ''default'',
      tenant = \<lparr>tenant_name = organizationId, issuer = ''saasbp.io''\<rparr>\<rparr>"

definition createTenant ::
  "env \<Rightarrow> 'p provider \<Rightarrow> string \<Rightarrow> 'p world \<Rightarrow> (thrown + string) \<times> 'p world" where
  "createTenant e prov organizationId w =
     (let cl = getFusionAuthClient ''default''
      in case await_call (CreateTenant cl '''' (tenantConfig e organizationId))
                (createTenant_op prov cl '''' (tenantConfig e organizationId)) w of
           (Inl err, w') \<Rightarrow> (Inl err, w')
         | (Inr createTenantResult, w') \<Rightarrow>
             (case createTenantResult_id createTenantResult of
                None \<Rightarrow>
                  (Inl (Error ''Couldn't create tenant. FusionAuth response was empty!''), w')
              | Some i \<Rightarrow>
                  if falsy (Some i)
                  then (Inl (Error ''Couldn't create tenant. FusionAuth response was empty!''), w')
                  else (Inr i, w')))"

text \<open>\<open>createAPIKeyResult?.response?.apiKey?.key\<close>\<close>

definition createAPIKeyResult_key :: "APIKeyResponse ClientResponse option \<Rightarrow> string option" where
  "createAPIKeyResult_key createAPIKeyResult =
     Option.bind (Option.bind (Option.bind createAPIKeyResult response) response_apiKey) apiKey_key"

definition apiKeyRequest :: "string \<Rightarrow> string \<Rightarrow> APIKeyRequest" where
  "apiKeyRequest organizationName tid =
     \<lparr>apiKey =
        \<lparr>metaData = \<lparr>attributes = \<lparr>description = ''API key for '' @ organizationName\<rparr>\<rparr>,
         tenantId = tid\<rparr>\<rparr>"

definition createApiKey ::
  "'p provider \<Rightarrow> string \<Rightarrow> string \<Rightarrow> 'p world \<Rightarrow> (thrown + string) \<times> 'p world" where
  "createApiKey prov organizationName tid w =
     (let cl = getFusionAuthClient ''default''
      in case await_call (CreateAPIKey cl '''' (apiKeyRequest organizationName tid))
                (createAPIKey_op prov cl '''' (apiKeyRequest organizationName tid)) w of
           (Inl err, w') \<Rightarrow> (Inl err, w')
         | (Inr createAPIKeyResult, w') \<Rightarrow>
             (case createAPIKeyResult_key createAPIKeyResult of
                None \<Rightarrow>
                  (Inl (Error ''FusionAuth API key create call was successful, but no API key was returned!''), w')
              | Some k \<Rightarrow>
                  if falsy (Some k)
                  then (Inl (Error ''FusionAuth API key create call was successful, but no API key was returned!''), w')
                  else (Inr k, w')))"

text \<open>\<open>createAppResult?.response?.application?.id\<close>\<close>

definition createAppResult_id :: "ApplicationResponse ClientResponse option \<Rightarrow> string option" where
  "createAppResult_id createAppResult =
     Option.bind (Option.bind (Option.bind createAppResult response) response_application) application_id"

definition newFusionAuthAppConfig :: "string \<Rightarrow> Application" where
  "newFusionAuthAppConfig organizationId =
     \<lparr>app_name = organizationId @ '' App'',
      roles = configuredRoles,
      loginConfiguration = \<lparr>generateRefreshTokens = True\<rparr>\<rparr>"

definition createApplication ::
  "env \<Rightarrow> 'p provider \<Rightarrow> string \<Rightarrow> string \<Rightarrow> 'p world \<Rightarrow> (thrown + string) \<times> 'p world" where
  "createApplication e prov organizationId lockedApiKey w =
     (let newFusionAuthClient = FusionAuthClient lockedApiKey (FUSIONAUTH_BASE_URL e);
          req = \<lparr>application = newFusionAuthAppConfig organizationId,
                 role = configuredRoles ! 0\<rparr>
      in case await_call (CreateApplication newFusionAuthClient '''' req)
                (createApplication_op prov newFusionAuthClient '''' req) w of
           (Inl err, w') \<Rightarrow> (Inl err, w')
         | (Inr createAppResult, w') \<Rightarrow>
             (case createAppResult_id createAppResult of
                None \<Rightarrow>
                  (Inl (Error ''An error occurred while creating the FusionAuth application.''), w')
              | Some i \<Rightarrow>
                  if falsy (Some i)
                  then (Inl (Error ''An error occurred while creating the FusionAuth application.''), w')
                  else (Inr i, w')))"

text \<open>
  \<open>Object.fromEntries(formData)\<close>: the form's entries in order, a later entry of the same
  name replacing an earlier one.
\<close>

definition fromEntries :: "(string \<times> string) list \<Rightarrow> (string \<rightharpoonup> string)" where
  "fromEntries formData = map_of (rev formData)"

text \<open>
  The response the action hands back to the framework: the one \<open>redirect(url)\<close> builds
  (status 302, \<open>Location\<close> set to \<open>url\<close> as given), or the one
  \<open>json({ error: { message } }, { status })\<close> builds; \<open>undefined\<close> is \<open>None\<close>, and
  a response built without a status has the framework's default, 200.
\<close>

datatype action_result =
  Redirect string
  | Json (error_message: "string option") (status: "int option")

text \<open>
  \<open>redirect\<close> and \<open>json\<close> come from the framework (\<open>@remix-run/node\<close>). Each
  builds a \<open>Response\<close> and can throw while doing so. \<open>redirect\<close> sets the
  \<open>Location\<close> header: a value without NUL, line feed and carriage return is a valid
  header value on every runtime; for any other value the runtime decides. \<open>json\<close> passes
  the status to \<open>Response\<close>: an absent status, or one from 200 to 599 other than the
  null-body statuses 204, 205 and 304, is accepted on every runtime; for any other status
  the runtime decides. Strings are lists of characters with codes below 256.
\<close>

definition valid_location :: "string \<Rightarrow> bool" where
  "valid_location url =
     (CHR 0x00 \<notin> set url \<and> CHR 0x0A \<notin> set url \<and> CHR 0x0D \<notin> set url)"

definition redirect :: "env \<Rightarrow> string \<Rightarrow> thrown + action_result" where
  "redirect e url =
     (if valid_location url then Inr (Redirect url)
      else case redirect_throws e url of
             None \<Rightarrow> Inr (Redirect url)
           | Some x \<Rightarrow> Inl x)"

definition accepted_status :: "int option \<Rightarrow> bool" where
  "accepted_status st =
     (case st of
        None \<Rightarrow> True
      | Some s \<Rightarrow> 200 \<le> s \<and> s \<le> 599 \<and> s \<noteq> 204 \<and> s \<noteq> 205 \<and> s \<noteq> 304)"

definition json :: "env \<Rightarrow> string option \<Rightarrow> int option \<Rightarrow> thrown + action_result" where
  "json e message st =
     (if accepted_status st then Inr (Json message st)
      else case json_throws e st of
             None \<Rightarrow> Inr (Json message st)
           | Some x \<Rightarrow> Inl x)"

text \<open>
  The catch clause of the action:
  \<open>return json({ error: { message: error.response } }, { status: error.statusCode })\<close>.
  It is not itself inside a \<open>try\<close>: what \<open>json\<close> throws leaves the action.
\<close>

definition catch_block :: "env \<Rightarrow> thrown \<Rightarrow> thrown + action_result" where
  "catch_block e err = json e (error_response err) (error_statusCode err)"

definition registrationRequest :: "(string \<rightharpoonup> string) \<Rightarrow> string \<Rightarrow> RegistrationRequest" where
  "registrationRequest usr appId = \<lparr>user = usr, registration = \<lparr>applicationId = appId\<rparr>\<rparr>"

text \<open>
  The action. The \<open>try\<close> block holds the \<open>register\<close> call and \<open>return redirect(...)\<close>,
  so an error thrown by either reaches the catch clause; steps 1 to 3 stand outside it.
\<close>

definition action ::
  "env \<Rightarrow> 'p provider \<Rightarrow> (string \<times> string) list \<Rightarrow> 'p world \<Rightarrow> (thrown + action_result) \<times> 'p world" where
  "action e prov formData w =
     (let usr = fromEntries formData
      in case usr ''organization'' of
           None \<Rightarrow> (Inl (InvariantFailed ''Organization name is required''), w)
         | Some orgName \<Rightarrow>
             if falsy (Some orgName)
             then (Inl (InvariantFailed ''Organization name is required''), w)
             else
               (case createTenant e prov orgName w of
                  (Inl err, w1) \<Rightarrow> (Inl err, w1)
                | (Inr tid, w1) \<Rightarrow>
                    (case createApiKey prov orgName tid w1 of
                       (Inl err, w2) \<Rightarrow> (Inl err, w2)
                     | (Inr lockedApiKey, w2) \<Rightarrow>
                         (case createApplication e prov orgName lockedApiKey w2 of
                            (Inl err, w3) \<Rightarrow> (Inl err, w3)
                          | (Inr appId, w3) \<Rightarrow>
                              (let cl = getFusionAuthClient tid
                               in case await_call (Register cl '''' (registrationRequest usr appId))
                                         (register_op prov cl '''' (registrationRequest usr appId)) w3 of
                                    (Inr u, w4) \<Rightarrow>
                                      (case redirect e (orgName @ ''.saasbp.io/signin'') of
                                         Inr resp \<Rightarrow> (Inr resp, w4)
                                       | Inl err \<Rightarrow> (catch_block e err, w4))
                                  | (Inl err, w4) \<Rightarrow> (catch_block e err, w4))))))"

subsection \<open>The scheme of a redirect target\<close>


subsection \<open>A scripted provider and a sample submission\<close>

text \<open>
  A provider that answers each operation with a fixed outcome and counts the calls it
  has served, in the manner of a test double; the sample outcomes are the ones the
  spec's test cases name.
\<close>

definition scripted_provider ::
  "(thrown + TenantResponse ClientResponse option) \<Rightarrow>
   (thrown + APIKeyResponse ClientResponse option) \<Rightarrow>
   (thrown + ApplicationResponse ClientResponse option) \<Rightarrow>
   (thrown + unit) \<Rightarrow> nat provider" where
  "scripted_provider r1 r2 r3 r4 =
     \<lparr>createTenant_op = (\<lambda>cl k req n. (r1, Suc n)),
      createAPIKey_op = (\<lambda>cl k req n. (r2, Suc n)),
      createApplication_op = (\<lambda>cl k req n. (r3, Suc n)),
      register_op = (\<lambda>cl k req n. (r4, Suc n))\<rparr>"

definition tenant_t1 :: "thrown + TenantResponse ClientResponse option" where
  "tenant_t1 =
     Inr (Some \<lparr>statusCode = 200,
                response = Some \<lparr>response_tenant = Some \<lparr>tenant_id = Some ''t1''\<rparr>\<rparr>\<rparr>)"

definition tenant_empty_body :: "thrown + TenantResponse ClientResponse option" where
  "tenant_empty_body = Inr (Some \<lparr>statusCode = 200, response = None\<rparr>)"

definition apiKey_k1 :: "thrown + APIKeyResponse ClientResponse option" where
  "apiKey_k1 =
     Inr (Some \<lparr>statusCode = 200,
                response = Some \<lparr>response_apiKey = Some \<lparr>apiKey_key = Some ''k1''\<rparr>\<rparr>\<rparr>)"

definition application_a1 :: "thrown + ApplicationResponse ClientResponse option" where
  "application_a1 =
     Inr (Some \<lparr>statusCode = 200,
                response = Some \<lparr>response_application = Some \<lparr>application_id = Some ''a1''\<rparr>\<rparr>\<rparr>)"

definition email_exists :: thrown where
  "email_exists = ClientError \<lparr>statusCode = 400, response = Some ''email already exists''\<rparr>"

definition server_error :: thrown where
  "server_error = ClientError \<lparr>statusCode = 500, response = Some ''internal error''\<rparr>"

text \<open>A runtime whose response classes never throw.\<close>

definition sample_env :: env where
  "sample_env =
     \<lparr>FUSIONAUTH_BASE_URL = Some ''http://localhost:9011'',
      client_tenantId = (\<lambda>a. if a = ''default'' then None else Some a),
      redirect_throws = (\<lambda>url. None),
      json_throws = (\<lambda>st. None)\<rparr>"

text \<open>
  A runtime with the standard classes. \<open>Headers\<close> strips leading and trailing HTTP
  whitespace from a value and throws a \<open>TypeError\<close> if NUL, line feed or carriage
  return remains. \<open>Response\<close> reads the status as an unsigned 16-bit number, throws a
  \<open>RangeError\<close> outside 200 to 599 and a \<open>TypeError\<close> for a null-body status given
  with a body.
\<close>

definition http_whitespace :: "char \<Rightarrow> bool" where
  "http_whitespace c = (c = CHR 0x09 \<or> c = CHR 0x0A \<or> c = CHR 0x0D \<or> c = CHR 0x20)"

definition normalize_header_value :: "string \<Rightarrow> string" where
  "normalize_header_value v =
     rev (dropWhile http_whitespace (rev (dropWhile http_whitespace v)))"

definition standard_redirect_throws :: "string \<Rightarrow> thrown option" where
  "standard_redirect_throws url =
     (if valid_location (normalize_header_value url) then None
      else Some (TypeError ''Invalid header value''))"

definition standard_json_throws :: "int option \<Rightarrow> thrown option" where
  "standard_json_throws st =
     (case st of
        None \<Rightarrow> None
      | Some s \<Rightarrow>
          (let s' = s mod 65536
           in if s' < 200 \<or> 599 < s' then Some (RangeError ''Invalid response status code'')
              else if s' = 204 \<or> s' = 205 \<or> s' = 304
              then Some (TypeError ''Response with null body status cannot have body'')
              else None))"

definition standard_env :: env where
  "standard_env =
     \<lparr>FUSIONAUTH_BASE_URL = Some ''http://localhost:9011'',
      client_tenantId = (\<lambda>a. if a = ''default'' then None else Some a),
      redirect_throws = standard_redirect_throws,
      json_throws = standard_json_throws\<rparr>"

definition not_modified :: thrown where
  "not_modified = ClientError \<lparr>statusCode = 304, response = Some ''not modified''\<rparr>"


definition sample_form :: "(string \<times> string) list" where
  "sample_form =
     [(''email'', ''ada@example.com''), (''password'', ''correct horse''),
      (''organization'', ''acme-corp'')]"

definition form_without_organization :: "(string \<times> string) list" where
  "form_without_organization = [(''email'', ''ada@example.com''), (''password'', ''correct horse'')]"

definition fresh_world :: "nat world" where
  "fresh_world = \<lparr>provider_state = 0, calls = []\<rparr>"

section \<open>Facts about the steps\<close>

subsection \<open>What each step logs and returns\<close>

lemma createTenant_rejected:
  assumes "createTenant_op prov (getFusionAuthClient ''default'') '''' (tenantConfig e org) (provider_state w) = (Inl err, p1)"
  shows "createTenant e prov org w =
           (Inl err, \<lparr>provider_state = p1,
                      calls = calls w @ [CreateTenant (getFusionAuthClient ''default'') '''' (tenantConfig e org)]\<rparr>)"
  using assms by (simp add: createTenant_def await_call_def Let_def)

lemma createTenant_without_id:
  assumes "createTenant_op prov (getFusionAuthClient ''default'') '''' (tenantConfig e org) (provider_state w) = (Inr res, p1)"
    and "falsy (createTenantResult_id res)"
  shows "createTenant e prov org w =
           (Inl (Error ''Couldn't create tenant. FusionAuth response was empty!''),
            \<lparr>provider_state = p1,
             calls = calls w @ [CreateTenant (getFusionAuthClient ''default'') '''' (tenantConfig e org)]\<rparr>)"
  using assms
  by (cases "createTenantResult_id res") (simp_all add: createTenant_def await_call_def Let_def)


lemma createTenant_calls:
  "calls (snd (createTenant e prov org w)) =
     calls w @ [CreateTenant (getFusionAuthClient ''default'') '''' (tenantConfig e org)]"
  by (simp add: createTenant_def await_call_def Let_def split: prod.splits sum.splits option.splits)

lemma createApiKey_calls:
  "calls (snd (createApiKey prov org tid w)) =
     calls w @ [CreateAPIKey (getFusionAuthClient ''default'') '''' (apiKeyRequest org tid)]"
  by (simp add: createApiKey_def await_call_def Let_def split: prod.splits sum.splits option.splits)

lemma createApplication_calls:
  "calls (snd (createApplication e prov org key w)) =
     calls w @ [CreateApplication (FusionAuthClient key (FUSIONAUTH_BASE_URL e)) ''''
                  \<lparr>application = newFusionAuthAppConfig org, role = configuredRoles ! 0\<rparr>]"
  by (simp add: createApplication_def await_call_def Let_def split: prod.splits sum.splits option.splits)



subsection \<open>The response builders\<close>



lemma json_accepted: "accepted_status st \<Longrightarrow> json e message st = Inr (Json message st)"
  by (simp add: json_def)



subsection \<open>The action\<close>

text \<open>The action, once the organization name has passed the invariant.\<close>

lemma action_organization:
  assumes "fromEntries formData ''organization'' = Some orgName" and "orgName \<noteq> []"
  shows "action e prov formData w =
     (case createTenant e prov orgName w of
        (Inl err, w1) \<Rightarrow> (Inl err, w1)
      | (Inr tid, w1) \<Rightarrow>
          (case createApiKey prov orgName tid w1 of
             (Inl err, w2) \<Rightarrow> (Inl err, w2)
           | (Inr lockedApiKey, w2) \<Rightarrow>
               (case createApplication e prov orgName lockedApiKey w2 of
                  (Inl err, w3) \<Rightarrow> (Inl err, w3)
                | (Inr appId, w3) \<Rightarrow>
                    (case register_op prov (getFusionAuthClient tid) ''''
                            (registrationRequest (fromEntries formData) appId) (provider_state w3) of
                       (r, p4) \<Rightarrow>
                         (case r of
                            Inr u \<Rightarrow>
                              (case redirect e (orgName @ ''.saasbp.io/signin'') of
                                 Inr resp \<Rightarrow> Inr resp
                               | Inl err \<Rightarrow> catch_block e err)
                          | Inl err \<Rightarrow> catch_block e err,
                          \<lparr>provider_state = p4,
                           calls = calls w3 @ [Register (getFusionAuthClient tid) ''''
                                     (registrationRequest (fromEntries formData) appId)]\<rparr>)))))"
  using assms
  by (simp add: action_def await_call_def Let_def split: prod.splits sum.splits)

lemma action_invariant_fails:
  assumes "falsy (fromEntries formData ''organization'')"
  shows "action e prov formData w = (Inl (InvariantFailed ''Organization name is required''), w)"
  using assms
  by (cases "fromEntries formData ''organization''") (simp_all add: action_def Let_def)


text \<open>The log of a run that passed the invariant: a non-empty prefix of the four calls.\<close>

lemma action_log_shape:
  assumes org: "fromEntries formData ''organization'' = Some orgName" and ne: "orgName \<noteq> []"
  shows "\<exists>tid key appId n.
           calls (snd (action e prov formData w)) =
             calls w @ take (Suc n)
               [CreateTenant (getFusionAuthClient ''default'') '''' (tenantConfig e orgName),
                CreateAPIKey (getFusionAuthClient ''default'') '''' (apiKeyRequest orgName tid),
                CreateApplication (FusionAuthClient key (FUSIONAUTH_BASE_URL e)) ''''
                  \<lparr>application = newFusionAuthAppConfig orgName, role = configuredRoles ! 0\<rparr>,
                Register (getFusionAuthClient tid) '''' (registrationRequest (fromEntries formData) appId)]"
    (is "\<exists>tid key appId n. ?log = calls w @ take (Suc n) (?four tid key appId)")
proof -
  obtain r1 w1 where s1: "createTenant e prov orgName w = (r1, w1)"
    by (cases "createTenant e prov orgName w")
  have l1: "calls w1 = calls w @ take (Suc 0) (?four tid key appId)" for tid key appId
    using createTenant_calls [of e prov orgName w] s1 by simp
  show ?thesis
  proof (cases r1)
    case (Inl err)
    then have "?log = calls w1"
      using s1 by (simp add: action_organization [OF org ne])
    then have "?log = calls w @ take (Suc 0) (?four [] [] [])"
      using l1 by simp
    then show ?thesis by blast
  next
    case r1: (Inr tid)
    obtain r2 w2 where s2: "createApiKey prov orgName tid w1 = (r2, w2)"
      by (cases "createApiKey prov orgName tid w1")
    have l2: "calls w2 = calls w @ take (Suc 1) (?four tid key appId)" for key appId
      using createApiKey_calls [of prov orgName tid w1] s2 l1 [of tid key appId] by simp
    show ?thesis
    proof (cases r2)
      case (Inl err)
      then have "?log = calls w2"
        using s1 r1 s2 by (simp add: action_organization [OF org ne])
      then have "?log = calls w @ take (Suc 1) (?four tid [] [])"
        using l2 by simp
      then show ?thesis by blast
    next
      case r2: (Inr key)
      obtain r3 w3 where s3: "createApplication e prov orgName key w2 = (r3, w3)"
        by (cases "createApplication e prov orgName key w2")
      have l3: "calls w3 = calls w @ take (Suc 2) (?four tid key appId)" for appId
        using createApplication_calls [of e prov orgName key w2] s3 l2 [of key appId] by simp
      show ?thesis
      proof (cases r3)
        case (Inl err)
        then have "?log = calls w3"
          using s1 r1 s2 r2 s3 by (simp add: action_organization [OF org ne])
        then have "?log = calls w @ take (Suc 2) (?four tid key [])"
          using l3 by simp
        then show ?thesis by blast
      next
        case r3: (Inr appId)
        have "?log = calls w3 @ [Register (getFusionAuthClient tid) ''''
                                   (registrationRequest (fromEntries formData) appId)]"
          using s1 r1 s2 r2 s3 r3
          by (simp add: action_organization [OF org ne] split: prod.splits)
        then have "?log = calls w @ take (Suc 3) (?four tid key appId)"
          using l3 [of appId] by simp
        then show ?thesis by blast
      qed
    qed
  qed
qed

lemma action_CreateApplication_logged:
  assumes "CreateApplication cl k req \<in> set (calls (snd (action e prov formData w)))"
    and "calls w = []"
  shows "\<exists>orgName key. fromEntries formData ''organization'' = Some orgName \<and>
           cl = FusionAuthClient key (FUSIONAUTH_BASE_URL e) \<and> k = [] \<and>
           req = \<lparr>application = newFusionAuthAppConfig orgName, role = configuredRoles ! 0\<rparr>"
proof (cases "falsy (fromEntries formData ''organization'')")
  case True
  then show ?thesis using assms by (simp add: action_invariant_fails)
next
  case False
  then obtain orgName where org: "fromEntries formData ''organization'' = Some orgName"
    and ne: "orgName \<noteq> []"
    by (cases "fromEntries formData ''organization''") auto
  from action_log_shape [OF org ne, of e prov w] obtain tid key appId n where
    "calls (snd (action e prov formData w)) =
       calls w @ take (Suc n)
         [CreateTenant (getFusionAuthClient ''default'') '''' (tenantConfig e orgName),
          CreateAPIKey (getFusionAuthClient ''default'') '''' (apiKeyRequest orgName tid),
          CreateApplication (FusionAuthClient key (FUSIONAUTH_BASE_URL e)) ''''
            \<lparr>application = newFusionAuthAppConfig orgName, role = configuredRoles ! 0\<rparr>,
          Register (getFusionAuthClient tid) '''' (registrationRequest (fromEntries formData) appId)]"
    by blast
  with assms have "CreateApplication cl k req \<in> set (take (Suc n)
         [CreateTenant (getFusionAuthClient ''default'') '''' (tenantConfig e orgName),
          CreateAPIKey (getFusionAuthClient ''default'') '''' (apiKeyRequest orgName tid),
          CreateApplication (FusionAuthClient key (FUSIONAUTH_BASE_URL e)) ''''
            \<lparr>application = newFusionAuthAppConfig orgName, role = configuredRoles ! 0\<rparr>,
          Register (getFusionAuthClient tid) '''' (registrationRequest (fromEntries formData) appId)])"
    by simp
  then have "CreateApplication cl k req \<in> set
         [CreateTenant (getFusionAuthClient ''default'') '''' (tenantConfig e orgName),
          CreateAPIKey (getFusionAuthClient ''default'') '''' (apiKeyRequest orgName tid),
          CreateApplication (FusionAuthClient key (FUSIONAUTH_BASE_URL e)) ''''
            \<lparr>application = newFusionAuthAppConfig orgName, role = configuredRoles ! 0\<rparr>,
          Register (getFusionAuthClient tid) '''' (registrationRequest (fromEntries formData) appId)]"
    by (rule in_set_takeD)
  then show ?thesis using org by simp
qed

subsection \<open>The scripted provider and the sample submission\<close>

lemma sample_organization: "fromEntries sample_form ''organization'' = Some ''acme-corp''"
  by (simp add: fromEntries_def sample_form_def)


lemma scripted_step1:
  "createTenant e (scripted_provider tenant_t1 r2 r3 r4) org \<lparr>provider_state = n, calls = cs\<rparr> =
     (Inr ''t1'', \<lparr>provider_state = Suc n,
                   calls = cs @ [CreateTenant (getFusionAuthClient ''default'') '''' (tenantConfig e org)]\<rparr>)"
  by (simp add: createTenant_def await_call_def Let_def scripted_provider_def tenant_t1_def
      createTenantResult_id_def)

lemma scripted_step2:
  "createApiKey (scripted_provider r1 apiKey_k1 r3 r4) org tid \<lparr>provider_state = n, calls = cs\<rparr> =
     (Inr ''k1'', \<lparr>provider_state = Suc n,
                   calls = cs @ [CreateAPIKey (getFusionAuthClient ''default'') '''' (apiKeyRequest org tid)]\<rparr>)"
  by (simp add: createApiKey_def await_call_def Let_def scripted_provider_def apiKey_k1_def
      createAPIKeyResult_key_def)

lemma scripted_step3:
  "createApplication e (scripted_provider r1 r2 application_a1 r4) org key \<lparr>provider_state = n, calls = cs\<rparr> =
     (Inr ''a1'', \<lparr>provider_state = Suc n,
                   calls = cs @ [CreateApplication (FusionAuthClient key (FUSIONAUTH_BASE_URL e)) ''''
                     \<lparr>application = newFusionAuthAppConfig org, role = configuredRoles ! 0\<rparr>]\<rparr>)"
  by (simp add: createApplication_def await_call_def Let_def scripted_provider_def application_a1_def
      createAppResult_id_def)

lemma scripted_step4:
  "register_op (scripted_provider r1 r2 r3 r4) cl k req n = (r4, Suc n)"
  by (simp add: scripted_provider_def)

lemmas scripted_steps = scripted_step1 scripted_step2 scripted_step3 scripted_step4

lemma scripted_reject1:
  "createTenant e (scripted_provider (Inl err) r2 r3 r4) org \<lparr>provider_state = n, calls = cs\<rparr> =
     (Inl err, \<lparr>provider_state = Suc n,
                calls = cs @ [CreateTenant (getFusionAuthClient ''default'') '''' (tenantConfig e org)]\<rparr>)"
  by (simp add: createTenant_def await_call_def Let_def scripted_provider_def)

lemma scripted_reject2:
  "createApiKey (scripted_provider r1 (Inl err) r3 r4) org tid \<lparr>provider_state = n, calls = cs\<rparr> =
     (Inl err, \<lparr>provider_state = Suc n,
                calls = cs @ [CreateAPIKey (getFusionAuthClient ''default'') '''' (apiKeyRequest org tid)]\<rparr>)"
  by (simp add: createApiKey_def await_call_def Let_def scripted_provider_def)

lemma scripted_reject3:
  "createApplication e (scripted_provider r1 r2 (Inl err) r4) org key \<lparr>provider_state = n, calls = cs\<rparr> =
     (Inl err, \<lparr>provider_state = Suc n,
                calls = cs @ [CreateApplication (FusionAuthClient key (FUSIONAUTH_BASE_URL e)) ''''
                     \<lparr>application = newFusionAuthAppConfig org, role = configuredRoles ! 0\<rparr>]\<rparr>)"
  by (simp add: createApplication_def await_call_def Let_def scripted_provider_def)

lemmas scripted_rejects = scripted_reject1 scripted_reject2 scripted_reject3

lemma scripted_tenant_reply:
  "createTenant_op (scripted_provider r1 r2 r3 r4) cl k req n = (r1, Suc n)"
  by (simp add: scripted_provider_def)

lemma sample_run_calls:
  "calls (snd (action sample_env (scripted_provider tenant_t1 apiKey_k1 application_a1 r4)
                 sample_form fresh_world)) =
     [CreateTenant (getFusionAuthClient ''default'') '''' (tenantConfig sample_env ''acme-corp''),
      CreateAPIKey (getFusionAuthClient ''default'') '''' (apiKeyRequest ''acme-corp'' ''t1''),
      CreateApplication (FusionAuthClient ''k1'' (FUSIONAUTH_BASE_URL sample_env)) ''''
        \<lparr>application = newFusionAuthAppConfig ''acme-corp'', role = configuredRoles ! 0\<rparr>,
      Register (getFusionAuthClient ''t1'') '''' (registrationRequest (fromEntries sample_form) ''a1'')]"
proof -
  have ne: "''acme-corp'' \<noteq> []" by simp
  show ?thesis
    by (simp add: action_organization [OF sample_organization ne] fresh_world_def scripted_steps)
qed

section \<open>The claims\<close>




text \<open>
  Claim C2. When the form has no \<open>organization\<close> field, or an empty one, the action
  fails on the invariant and leaves the world as it found it: no provider operation is
  invoked, so the log of calls and the provider's state are unchanged.
\<close>

theorem C2_no_organization_no_calls:
  assumes "fromEntries formData ''organization'' = None \<or> fromEntries formData ''organization'' = Some ''''"
  shows "fst (action e prov formData w) = Inl (InvariantFailed ''Organization name is required'')
         \<and> calls (snd (action e prov formData w)) = calls w
         \<and> snd (action e prov formData w) = w"
proof -
  from assms have "falsy (fromEntries formData ''organization'')" by auto
  then show ?thesis by (simp add: action_invariant_fails)
qed

theorem C2_no_organization_no_calls_witness:
  "fst (action sample_env (scripted_provider tenant_t1 apiKey_k1 application_a1 (Inr ()))
          form_without_organization fresh_world) = Inl (InvariantFailed ''Organization name is required'')
   \<and> calls (snd (action sample_env (scripted_provider tenant_t1 apiKey_k1 application_a1 (Inr ()))
          form_without_organization fresh_world)) = []
   \<and> calls (snd (action sample_env (scripted_provider tenant_t1 apiKey_k1 application_a1 (Inr ()))
          [(''email'', ''ada@example.com''), (''organization'', '''')] fresh_world)) = []"
proof -
  have h1: "fromEntries form_without_organization ''organization'' = None
            \<or> fromEntries form_without_organization ''organization'' = Some ''''"
    by (simp add: fromEntries_def form_without_organization_def)
  have h2: "fromEntries [(''email'', ''ada@example.com''), (''organization'', '''')] ''organization'' = None
            \<or> fromEntries [(''email'', ''ada@example.com''), (''organization'', '''')] ''organization'' = Some ''''"
    by (simp add: fromEntries_def)
  show ?thesis
    using C2_no_organization_no_calls [OF h1, of sample_env
            "scripted_provider tenant_t1 apiKey_k1 application_a1 (Inr ())" fresh_world]
          C2_no_organization_no_calls [OF h2, of sample_env
            "scripted_provider tenant_t1 apiKey_k1 application_a1 (Inr ())" fresh_world]
    by (simp add: fresh_world_def)
qed



text \<open>
  Claim C4. When the provider's \<open>createTenant\<close> resolves with a response from which no
  tenant id can be read (the envelope, the body, the tenant or the id is absent, or the id
  is the empty string), the action throws the error
  "Couldn't create tenant. FusionAuth response was empty!", and the only call issued is
  that \<open>createTenant\<close>: neither \<open>createAPIKey\<close> nor any later call is made. The
  sample run is a status-200 response with no body.
\<close>

theorem C4_response_without_tenant_id:
  assumes org: "fromEntries formData ''organization'' = Some orgName" and ne: "orgName \<noteq> []"
    and reply: "createTenant_op prov (getFusionAuthClient ''default'') '''' (tenantConfig e orgName)
              (provider_state w) = (Inr res, p1)"
    and no_id: "falsy (createTenantResult_id res)"
  shows "action e prov formData w =
           (Inl (Error ''Couldn't create tenant. FusionAuth response was empty!''),
            \<lparr>provider_state = p1,
             calls = calls w @ [CreateTenant (getFusionAuthClient ''default'') '''' (tenantConfig e orgName)]\<rparr>)"
  using createTenant_without_id [OF reply no_id]
  by (simp add: action_organization [OF org ne])

theorem C4_response_without_tenant_id_witness:
  "action sample_env (scripted_provider tenant_empty_body apiKey_k1 application_a1 (Inr ()))
      sample_form fresh_world =
     (Inl (Error ''Couldn't create tenant. FusionAuth response was empty!''),
      \<lparr>provider_state = Suc 0,
       calls = [CreateTenant (getFusionAuthClient ''default'') '''' (tenantConfig sample_env ''acme-corp'')]\<rparr>)"
proof -
  have ne: "''acme-corp'' \<noteq> []" by simp
  have reply: "createTenant_op (scripted_provider tenant_empty_body apiKey_k1 application_a1 (Inr ()))
                 (getFusionAuthClient ''default'') '''' (tenantConfig sample_env ''acme-corp'')
                 (provider_state fresh_world)
               = (Inr (Some \<lparr>statusCode = 200, response = None\<rparr>), Suc 0)"
    by (simp add: scripted_tenant_reply tenant_empty_body_def fresh_world_def)
  have no_id: "falsy (createTenantResult_id (Some \<lparr>statusCode = 200, response = None\<rparr>))"
    by (simp add: createTenantResult_id_def)
  show ?thesis
    using C4_response_without_tenant_id [OF sample_organization ne reply no_id]
    by (simp add: fresh_world_def)
qed

text \<open>
  Claim C5. When steps 1 to 3 succeed and the provider's \<open>register\<close> rejects with a
  \<open>ClientResponse\<close> of status code 400 and body "email already exists", the action
  returns (\<open>Inr\<close>: it does not throw) the JSON result with status 400 and
  \<open>error.message\<close> "email already exists".
\<close>

theorem C5_register_rejection_returned_as_json:
  assumes "fromEntries formData ''organization'' = Some orgName" and "orgName \<noteq> []"
    and "createTenant e prov orgName w = (Inr tid, w1)"
    and "createApiKey prov orgName tid w1 = (Inr lockedApiKey, w2)"
    and "createApplication e prov orgName lockedApiKey w2 = (Inr appId, w3)"
    and "register_op prov (getFusionAuthClient tid) '''' (registrationRequest (fromEntries formData) appId)
           (provider_state w3)
         = (Inl (ClientError \<lparr>statusCode = 400, response = Some ''email already exists''\<rparr>), p4)"
  shows "fst (action e prov formData w) = Inr (Json (Some ''email already exists'') (Some 400))"
  using assms
  by (simp add: action_organization catch_block_def json_accepted accepted_status_def)

theorem C5_register_rejection_returned_as_json_witness:
  "fst (action sample_env (scripted_provider tenant_t1 apiKey_k1 application_a1 (Inl email_exists))
          sample_form fresh_world)
     = Inr (Json (Some ''email already exists'') (Some 400))"
proof -
  have ne: "''acme-corp'' \<noteq> []" by simp
  show ?thesis
    using C5_register_rejection_returned_as_json [OF sample_organization ne, of sample_env
        "scripted_provider tenant_t1 apiKey_k1 application_a1 (Inl email_exists)" fresh_world]
    by (simp add: fresh_world_def scripted_steps email_exists_def)
qed

text \<open>
  Claim C6. Every \<open>createApplication\<close> call that the action issues, starting from an
  empty log, creates an application named after the submitted organization name followed
  by \<open>App\<close>, with exactly two roles in this order: \<open>admin\<close>, not default, and
  \<open>member\<close>, default.
\<close>

theorem C6_application_name_and_roles:
  assumes "CreateApplication cl k req \<in> set (calls (snd (action e prov formData w)))"
    and "calls w = []"
  shows "\<exists>orgName. fromEntries formData ''organization'' = Some orgName
           \<and> app_name (application req) = orgName @ '' App''
           \<and> map (\<lambda>r. (role_name r, isDefault r)) (roles (application req))
               = [(''admin'', False), (''member'', True)]"
proof -
  from action_CreateApplication_logged [OF assms] obtain orgName key where
    org: "fromEntries formData ''organization'' = Some orgName" and
    req: "req = \<lparr>application = newFusionAuthAppConfig orgName, role = configuredRoles ! 0\<rparr>"
    by blast
  have "app_name (application req) = orgName @ '' App''"
    by (simp add: req newFusionAuthAppConfig_def)
  moreover have "map (\<lambda>r. (role_name r, isDefault r)) (roles (application req))
               = [(''admin'', False), (''member'', True)]"
    by (simp add: req newFusionAuthAppConfig_def configuredRoles_def)
  ultimately show ?thesis using org by simp
qed

theorem C6_application_name_and_roles_witness:
  "\<exists>orgName. fromEntries sample_form ''organization'' = Some orgName
     \<and> app_name (newFusionAuthAppConfig ''acme-corp'') = orgName @ '' App''
     \<and> map (\<lambda>r. (role_name r, isDefault r)) (roles (newFusionAuthAppConfig ''acme-corp''))
         = [(''admin'', False), (''member'', True)]"
proof -
  have logged: "CreateApplication (FusionAuthClient ''k1'' (FUSIONAUTH_BASE_URL sample_env)) ''''
        \<lparr>application = newFusionAuthAppConfig ''acme-corp'', role = configuredRoles ! 0\<rparr>
      \<in> set (calls (snd (action sample_env (scripted_provider tenant_t1 apiKey_k1 application_a1 (Inr ()))
                 sample_form fresh_world)))"
    by (simp add: sample_run_calls)
  have empty: "calls fresh_world = []" by (simp add: fresh_world_def)
  show ?thesis
    using C6_application_name_and_roles [OF logged empty] by simp
qed

text \<open>
  Claim C7, the two error channels. Once the organization name has passed the
  invariant: an error thrown by step 1, 2 or 3 (a rejection by the provider or the
  step's own \<open>throw\<close>) is the outcome of the action itself, thrown on unchanged, with
  the world as that step left it. A rejection of the step-4 \<open>register\<close> call is
  caught and handed to \<open>json\<close> with the error's \<open>response\<close> and \<open>statusCode\<close>: the
  outcome of the action is the outcome of that \<open>json\<close> call. It is the JSON result
  whenever the status is one that \<open>json\<close> accepts (absent, or from 200 to 599 other
  than 204, 205 and 304); what \<open>json\<close> throws on another status leaves the action.
\<close>

theorem C7_error_channel_asymmetry:
  assumes org: "fromEntries formData ''organization'' = Some orgName" and ne: "orgName \<noteq> []"
  shows "(createTenant e prov orgName w = (Inl err, w1)
            \<longrightarrow> action e prov formData w = (Inl err, w1))
       \<and> (createTenant e prov orgName w = (Inr tid, w1) \<and>
          createApiKey prov orgName tid w1 = (Inl err, w2)
            \<longrightarrow> action e prov formData w = (Inl err, w2))
       \<and> (createTenant e prov orgName w = (Inr tid, w1) \<and>
          createApiKey prov orgName tid w1 = (Inr lockedApiKey, w2) \<and>
          createApplication e prov orgName lockedApiKey w2 = (Inl err, w3)
            \<longrightarrow> action e prov formData w = (Inl err, w3))
       \<and> (createTenant e prov orgName w = (Inr tid, w1) \<and>
          createApiKey prov orgName tid w1 = (Inr lockedApiKey, w2) \<and>
          createApplication e prov orgName lockedApiKey w2 = (Inr appId, w3) \<and>
          register_op prov (getFusionAuthClient tid) '''' (registrationRequest (fromEntries formData) appId)
            (provider_state w3) = (Inl err, p4)
            \<longrightarrow> fst (action e prov formData w) = json e (error_response err) (error_statusCode err)
              \<and> (accepted_status (error_statusCode err)
                    \<longrightarrow> fst (action e prov formData w)
                          = Inr (Json (error_response err) (error_statusCode err))))"
proof -
  note run = action_organization [OF org ne, of e prov w]
  have c1: "createTenant e prov orgName w = (Inl err, w1)
            \<longrightarrow> action e prov formData w = (Inl err, w1)"
    by (simp add: run)
  have c2: "createTenant e prov orgName w = (Inr tid, w1) \<and>
          createApiKey prov orgName tid w1 = (Inl err, w2)
            \<longrightarrow> action e prov formData w = (Inl err, w2)"
    by (simp add: run)
  have c3: "createTenant e prov orgName w = (Inr tid, w1) \<and>
          createApiKey prov orgName tid w1 = (Inr lockedApiKey, w2) \<and>
          createApplication e prov orgName lockedApiKey w2 = (Inl err, w3)
            \<longrightarrow> action e prov formData w = (Inl err, w3)"
    by (simp add: run)
  have c4: "createTenant e prov orgName w = (Inr tid, w1) \<and>
          createApiKey prov orgName tid w1 = (Inr lockedApiKey, w2) \<and>
          createApplication e prov orgName lockedApiKey w2 = (Inr appId, w3) \<and>
          register_op prov (getFusionAuthClient tid) '''' (registrationRequest (fromEntries formData) appId)
            (provider_state w3) = (Inl err, p4)
            \<longrightarrow> fst (action e prov formData w) = json e (error_response err) (error_statusCode err)
              \<and> (accepted_status (error_statusCode err)
                    \<longrightarrow> fst (action e prov formData w)
                          = Inr (Json (error_response err) (error_statusCode err)))"
    by (simp add: run catch_block_def json_accepted)
  show ?thesis
    by (rule conjI [OF c1 conjI [OF c2 conjI [OF c3 c4]]])
qed

text \<open>
  One run per channel, on the standard runtime: the provider rejects with status 500 at
  step 1, at step 2, at step 3 and at step 4; and it rejects with status 304 at step 4,
  where \<open>json\<close> throws.
\<close>

theorem C7_error_channel_asymmetry_witness:
  "fst (action standard_env (scripted_provider (Inl server_error) apiKey_k1 application_a1 (Inr ()))
          sample_form fresh_world) = Inl server_error
   \<and> fst (action standard_env (scripted_provider tenant_t1 (Inl server_error) application_a1 (Inr ()))
          sample_form fresh_world) = Inl server_error
   \<and> fst (action standard_env (scripted_provider tenant_t1 apiKey_k1 (Inl server_error) (Inr ()))
          sample_form fresh_world) = Inl server_error
   \<and> fst (action standard_env (scripted_provider tenant_t1 apiKey_k1 application_a1 (Inl server_error))
          sample_form fresh_world) = Inr (Json (Some ''internal error'') (Some 500))
   \<and> fst (action standard_env (scripted_provider tenant_t1 apiKey_k1 application_a1 (Inl not_modified))
          sample_form fresh_world) = json standard_env (Some ''not modified'') (Some 304)"
proof -
  let ?c1 = "CreateTenant (getFusionAuthClient ''default'') '''' (tenantConfig standard_env ''acme-corp'')"
  let ?c2 = "CreateAPIKey (getFusionAuthClient ''default'') '''' (apiKeyRequest ''acme-corp'' ''t1'')"
  let ?c3 = "CreateApplication (FusionAuthClient ''k1'' (FUSIONAUTH_BASE_URL standard_env)) ''''
               \<lparr>application = newFusionAuthAppConfig ''acme-corp'', role = configuredRoles ! 0\<rparr>"
  let ?w1 = "\<lparr>provider_state = Suc 0, calls = [?c1]\<rparr>"
  let ?w2 = "\<lparr>provider_state = Suc (Suc 0), calls = [?c1, ?c2]\<rparr>"
  let ?w3 = "\<lparr>provider_state = Suc (Suc (Suc 0)), calls = [?c1, ?c2, ?c3]\<rparr>"
  have ne: "''acme-corp'' \<noteq> []" by simp
  have t_ok: "createTenant standard_env (scripted_provider tenant_t1 r2 r3 r4) ''acme-corp'' fresh_world
                = (Inr ''t1'', ?w1)" for r2 r3 r4
    by (simp add: fresh_world_def scripted_step1)
  have t_no: "createTenant standard_env (scripted_provider (Inl server_error) r2 r3 r4) ''acme-corp'' fresh_world
                = (Inl server_error, ?w1)" for r2 r3 r4
    by (simp add: fresh_world_def scripted_reject1)
  have k_ok: "createApiKey (scripted_provider r1 apiKey_k1 r3 r4) ''acme-corp'' ''t1'' ?w1
                = (Inr ''k1'', ?w2)" for r1 r3 r4
    by (simp add: scripted_step2)
  have k_no: "createApiKey (scripted_provider r1 (Inl server_error) r3 r4) ''acme-corp'' ''t1'' ?w1
                = (Inl server_error, ?w2)" for r1 r3 r4
    by (simp add: scripted_reject2)
  have a_ok: "createApplication standard_env (scripted_provider r1 r2 application_a1 r4) ''acme-corp'' ''k1'' ?w2
                = (Inr ''a1'', ?w3)" for r1 r2 r4
    by (simp add: scripted_step3)
  have a_no: "createApplication standard_env (scripted_provider r1 r2 (Inl server_error) r4) ''acme-corp'' ''k1'' ?w2
                = (Inl server_error, ?w3)" for r1 r2 r4
    by (simp add: scripted_reject3)
  have r_no: "register_op (scripted_provider r1 r2 r3 (Inl err)) (getFusionAuthClient ''t1'') ''''
                (registrationRequest (fromEntries sample_form) ''a1'') (provider_state ?w3)
                = (Inl err, Suc (Suc (Suc (Suc 0))))" for r1 r2 r3 err
    by (simp add: scripted_step4)
  note asym = C7_error_channel_asymmetry [OF sample_organization ne]
  have step1: "action standard_env (scripted_provider (Inl server_error) apiKey_k1 application_a1 (Inr ()))
                 sample_form fresh_world = (Inl server_error, ?w1)"
    by (rule asym [THEN conjunct1, THEN mp, OF t_no])
  have step2: "action standard_env (scripted_provider tenant_t1 (Inl server_error) application_a1 (Inr ()))
                 sample_form fresh_world = (Inl server_error, ?w2)"
    by (rule asym [THEN conjunct2, THEN conjunct1, THEN mp, OF conjI [OF t_ok k_no]])
  have step3: "action standard_env (scripted_provider tenant_t1 apiKey_k1 (Inl server_error) (Inr ()))
                 sample_form fresh_world = (Inl server_error, ?w3)"
    by (rule asym [THEN conjunct2, THEN conjunct2, THEN conjunct1, THEN mp,
          OF conjI [OF t_ok conjI [OF k_ok a_no]]])
  note step4 = asym [THEN conjunct2, THEN conjunct2, THEN conjunct2, THEN mp,
          OF conjI [OF t_ok conjI [OF k_ok conjI [OF a_ok r_no]]]]
  have sc: "error_response server_error = Some ''internal error''"
    "error_statusCode server_error = Some 500"
    by (simp_all add: server_error_def)
  have "accepted_status (error_statusCode server_error)"
    by (simp add: sc accepted_status_def)
  from step4 [THEN conjunct2, THEN mp, OF this]
  have caught: "fst (action standard_env (scripted_provider tenant_t1 apiKey_k1 application_a1 (Inl server_error))
                 sample_form fresh_world) = Inr (Json (Some ''internal error'') (Some 500))"
    by (simp add: sc)
  have nm: "error_response not_modified = Some ''not modified''"
    "error_statusCode not_modified = Some 304"
    by (simp_all add: not_modified_def)
  from step4 [THEN conjunct1, of not_modified]
  have handed: "fst (action standard_env (scripted_provider tenant_t1 apiKey_k1 application_a1 (Inl not_modified))
                 sample_form fresh_world) = json standard_env (Some ''not modified'') (Some 304)"
    by (simp add: nm)
  from step1 step2 step3 caught handed show ?thesis by simp
qed

text \<open>
  The claim as stated fails when \<open>json\<close> refuses the status. The provider rejects
  \<open>register\<close> with status 304; on the standard runtime \<open>Response\<close> throws for a
  null-body status given with a body, and the action throws that \<open>TypeError\<close> instead
  of returning a JSON result.
\<close>

theorem C7_json_throws_counterexample:
  "fst (action standard_env (scripted_provider tenant_t1 apiKey_k1 application_a1 (Inl not_modified))
          sample_form fresh_world)
     = Inl (TypeError ''Response with null body status cannot have body'')"
proof -
  have ne: "''acme-corp'' \<noteq> []" by simp
  have "json standard_env (Some ''not modified'') (Some 304)
          = Inl (TypeError ''Response with null body status cannot have body'')"
    by (simp add: json_def accepted_status_def standard_env_def standard_json_throws_def)
  then show ?thesis
    by (simp add: action_organization [OF sample_organization ne] fresh_world_def scripted_steps
        catch_block_def not_modified_def)
qed



text \<open>
  Claim C9. \<open>createApplication\<close> issues one call, whose request carries, next to the
  application with its two configured roles, a top-level \<open>role\<close> that is the admin role:
  the first element of \<open>configuredRoles\<close>. This holds for every organization name, key,
  provider and world.
\<close>

theorem C9_request_role_is_admin:
  "\<exists>req. calls (snd (createApplication e prov organizationId lockedApiKey w)) =
            calls w @ [CreateApplication (FusionAuthClient lockedApiKey (FUSIONAUTH_BASE_URL e)) '''' req]
         \<and> role req = \<lparr>role_name = ''admin'',
                        role_description = ''Admin role inside the organization'',
                        isDefault = False\<rparr>
         \<and> role req = hd configuredRoles
         \<and> roles (application req) = configuredRoles
         \<and> length (roles (application req)) = 2"
proof -
  let ?req = "\<lparr>application = newFusionAuthAppConfig organizationId, role = configuredRoles ! 0\<rparr>"
  have "calls (snd (createApplication e prov organizationId lockedApiKey w)) =
            calls w @ [CreateApplication (FusionAuthClient lockedApiKey (FUSIONAUTH_BASE_URL e)) '''' ?req]"
    by (rule createApplication_calls)
  moreover have "role ?req = \<lparr>role_name = ''admin'',
                        role_description = ''Admin role inside the organization'',
                        isDefault = False\<rparr>"
    by (simp add: configuredRoles_def)
  moreover have "role ?req = hd configuredRoles"
    by (simp add: configuredRoles_def)
  moreover have "roles (application ?req) = configuredRoles"
    by (simp add: newFusionAuthAppConfig_def)
  moreover have "length (roles (application ?req)) = 2"
    by (simp add: newFusionAuthAppConfig_def configuredRoles_def)
  ultimately show ?thesis by (intro exI [of _ ?req] conjI)
qed

theorem C9_request_role_is_admin_witness:
  "\<exists>req. calls (snd (createApplication sample_env
                       (scripted_provider tenant_t1 apiKey_k1 application_a1 (Inr ()))
                       ''acme-corp'' ''k1'' fresh_world)) =
            calls fresh_world @
              [CreateApplication (FusionAuthClient ''k1'' (FUSIONAUTH_BASE_URL sample_env)) '''' req]
         \<and> role req = \<lparr>role_name = ''admin'',
                        role_description = ''Admin role inside the organization'',
                        isDefault = False\<rparr>
         \<and> role req = hd configuredRoles
         \<and> roles (application req) = configuredRoles
         \<and> length (roles (application req)) = 2"
  by (rule C9_request_role_is_admin)

text \<open>
  Claim C10. Every \<open>createApplication\<close> call that the action issues, starting from an
  empty log, creates an application whose login configuration has
  \<open>generateRefreshTokens\<close> set to true.
\<close>

theorem C10_refresh_tokens_enabled:
  assumes "CreateApplication cl k req \<in> set (calls (snd (action e prov formData w)))"
    and "calls w = []"
  shows "generateRefreshTokens (loginConfiguration (application req)) = True"
proof -
  from action_CreateApplication_logged [OF assms] obtain orgName where
    "application req = newFusionAuthAppConfig orgName"
    by auto
  then show ?thesis by (simp add: newFusionAuthAppConfig_def)
qed

theorem C10_refresh_tokens_enabled_witness:
  "generateRefreshTokens (loginConfiguration (newFusionAuthAppConfig ''acme-corp'')) = True"
proof -
  have logged: "CreateApplication (FusionAuthClient ''k1'' (FUSIONAUTH_BASE_URL sample_env)) ''''
        \<lparr>application = newFusionAuthAppConfig ''acme-corp'', role = configuredRoles ! 0\<rparr>
      \<in> set (calls (snd (action sample_env (scripted_provider tenant_t1 apiKey_k1 application_a1 (Inr ()))
                 sample_form fresh_world)))"
    by (simp add: sample_run_calls)
  have empty: "calls fresh_world = []" by (simp add: fresh_world_def)
  show ?thesis
    using C10_refresh_tokens_enabled [OF logged empty] by simp
qed

end
